theory Spec2Isabelle
  imports Main "HOL-Library.Sublist"
begin

section \<open>JavaScript values\<close>

text \<open>
  The machine \<open>Parse package.json\<close> works on whatever \<open>JSON.parse\<close> returns, and
  reads it with plain property accesses, truthiness tests and a few lodash calls.
  The values it can meet are the JSON values, \<open>undefined\<close> (a missing property), and
  a built-in member reached through a prototype with a computed key
  (\<open>_data.versions[moduleMetadata.version]\<close> with the key \<open>toString\<close>, say).

  A number is kept as its ECMAScript \<open>ToString\<close> rendering. The rendering determines
  the number up to the sign of zero, and this program observes a number only through
  truthiness, strict equality, use as a property key, and a length test.
  An object is the list of its own enumerable properties in enumeration order.
  Strings are lists of 8-bit characters.
\<close>

datatype jsval =
    Undefined
  | JNull
  | JBool bool
  | JNum string
  | JStr string
  | JArr "jsval list"
  | JObj "(string \<times> jsval) list"
  | Builtin

datatype error = SyntaxError | TypeError

type_synonym 'a result = "error + 'a"

definition and_then :: "'a result \<Rightarrow> ('a \<Rightarrow> 'b result) \<Rightarrow> 'b result" where
  "and_then r f = (case r of Inl e \<Rightarrow> Inl e | Inr v \<Rightarrow> f v)"

fun truthy :: "jsval \<Rightarrow> bool" where
  "truthy Undefined = False"
| "truthy JNull = False"
| "truthy (JBool b) = b"
| "truthy (JNum r) = (r \<noteq> ''0'')"
| "truthy (JStr s) = (s \<noteq> [])"
| "truthy (JArr xs) = True"
| "truthy (JObj kvs) = True"
| "truthy Builtin = True"

fun nullish :: "jsval \<Rightarrow> bool" where
  "nullish Undefined = True"
| "nullish JNull = True"
| "nullish v = False"

subsection \<open>Decimal renderings\<close>

definition digit_char :: "nat \<Rightarrow> char" where
  "digit_char d = char_of (48 + d)"

fun show_nat :: "nat \<Rightarrow> string" where
  "show_nat n = (if n < 10 then [digit_char n] else show_nat (n div 10) @ [digit_char (n mod 10)])"

definition is_digit :: "char \<Rightarrow> bool" where
  "is_digit c = ((48::nat) \<le> of_char c \<and> of_char c \<le> (57::nat))"

definition read_nat :: "string \<Rightarrow> nat" where
  "read_nat s = foldl (\<lambda>acc c. 10 * acc + (of_char c - 48)) 0 s"

subsection \<open>Strict equality\<close>

text \<open>
  \<open>===\<close>. Two objects or arrays are equal only when they are the same reference; every
  comparison the program makes is between values held in different places of a freshly
  parsed document, or between such a value and a string constant, so no two references
  compared are ever the same one.
\<close>

fun strict_eq :: "jsval \<Rightarrow> jsval \<Rightarrow> bool" where
  "strict_eq Undefined Undefined = True"
| "strict_eq JNull JNull = True"
| "strict_eq (JBool a) (JBool b) = (a = b)"
| "strict_eq (JNum a) (JNum b) = (a = b)"
| "strict_eq (JStr a) (JStr b) = (a = b)"
| "strict_eq a b = False"

subsection \<open>Property access\<close>

text \<open>
  Names carried by the built-in prototypes (ECMAScript 5.1 with Annex B and the legacy
  accessors of V8). None of them is a name the program reads by a fixed identifier.
\<close>

definition object_prototype_names :: "string list" where
  "object_prototype_names =
     [''constructor'', ''toString'', ''toLocaleString'', ''valueOf'', ''hasOwnProperty'',
      ''isPrototypeOf'', ''propertyIsEnumerable'', ''__proto__'', ''__defineGetter__'',
      ''__defineSetter__'', ''__lookupGetter__'', ''__lookupSetter__'']"

definition array_prototype_names :: "string list" where
  "array_prototype_names =
     [''concat'', ''join'', ''pop'', ''push'', ''reverse'', ''shift'', ''slice'', ''sort'',
      ''splice'', ''unshift'', ''indexOf'', ''lastIndexOf'', ''every'', ''some'', ''forEach'',
      ''map'', ''filter'', ''reduce'', ''reduceRight'']"

definition string_prototype_names :: "string list" where
  "string_prototype_names =
     [''charAt'', ''charCodeAt'', ''concat'', ''indexOf'', ''lastIndexOf'', ''localeCompare'',
      ''match'', ''replace'', ''search'', ''slice'', ''split'', ''substring'', ''substr'',
      ''toLowerCase'', ''toLocaleLowerCase'', ''toUpperCase'', ''toLocaleUpperCase'', ''trim'',
      ''trimLeft'', ''trimRight'', ''anchor'', ''big'', ''blink'', ''bold'', ''fixed'',
      ''fontcolor'', ''fontsize'', ''italics'', ''link'', ''small'', ''strike'', ''sub'', ''sup'']"

definition number_prototype_names :: "string list" where
  "number_prototype_names = [''toFixed'', ''toExponential'', ''toPrecision'']"

text \<open>
  \<open>own_index n k\<close> is the position an array or string of length \<open>n\<close> stores under the
  property key \<open>k\<close>: the key has to be the canonical decimal rendering of an index below
  the length.
\<close>

definition own_index :: "nat \<Rightarrow> string \<Rightarrow> nat option" where
  "own_index n k = List.find (\<lambda>i. show_nat i = k) [0..<n]"

definition inherited :: "string list \<Rightarrow> string \<Rightarrow> jsval" where
  "inherited names k =
     (if k \<in> set names \<or> k \<in> set object_prototype_names then Builtin else Undefined)"

text \<open>
  \<open>property v k\<close> is the value of \<open>v[k]\<close> for a \<open>v\<close> that is neither \<open>undefined\<close> nor
  \<open>null\<close>: an own property first, then the prototype chain. A built-in member has none
  of the properties the program reads from it.
\<close>

fun property :: "jsval \<Rightarrow> string \<Rightarrow> jsval" where
  "property (JObj kvs) k =
     (case map_of kvs k of Some v \<Rightarrow> v | None \<Rightarrow> inherited [] k)"
| "property (JArr xs) k =
     (case own_index (length xs) k of
        Some i \<Rightarrow> xs ! i
      | None \<Rightarrow> if k = ''length'' then JNum (show_nat (length xs))
                else inherited array_prototype_names k)"
| "property (JStr s) k =
     (case own_index (length s) k of
        Some i \<Rightarrow> JStr [s ! i]
      | None \<Rightarrow> if k = ''length'' then JNum (show_nat (length s))
                else inherited string_prototype_names k)"
| "property (JNum r) k = inherited number_prototype_names k"
| "property (JBool b) k = inherited [] k"
| "property v k = Undefined"

text \<open>Reading a property of \<open>undefined\<close> or \<open>null\<close> throws a TypeError.\<close>

definition js_get :: "jsval \<Rightarrow> string \<Rightarrow> jsval result" where
  "js_get v k = (if nullish v then Inl TypeError else Inr (property v k))"

subsection \<open>ToString\<close>

fun intercalate :: "string \<Rightarrow> string list \<Rightarrow> string" where
  "intercalate sep [] = []"
| "intercalate sep [x] = x"
| "intercalate sep (x # y # ys) = x @ sep @ intercalate sep (y # ys)"

text \<open>
  \<open>String(v)\<close>, which is also how a value becomes a property key, where the conversion
  does not throw. An array joins its elements with commas, \<open>null\<close> and \<open>undefined\<close>
  elements rendering as empty.
\<close>

fun to_string :: "jsval \<Rightarrow> string" where
  "to_string Undefined = ''undefined''"
| "to_string JNull = ''null''"
| "to_string (JBool b) = (if b then ''true'' else ''false'')"
| "to_string (JNum r) = r"
| "to_string (JStr s) = s"
| "to_string (JArr xs) =
     intercalate '','' (map (\<lambda>x. if nullish x then [] else to_string x) xs)"
| "to_string (JObj kvs) = ''[object Object]''"
| "to_string Builtin = ''[object Object]''"

text \<open>
  The conversion throws a TypeError on an object that has a \<open>toString\<close> property of its
  own: the property of a parsed object is data, not a function, and the inherited
  \<open>valueOf\<close> gives back the object. An array throws when one of its elements does.
\<close>

fun stringifiable :: "jsval \<Rightarrow> bool" where
  "stringifiable (JObj kvs) = (map_of kvs ''toString'' = None)"
| "stringifiable (JArr xs) = list_all (\<lambda>x. nullish x \<or> stringifiable x) xs"
| "stringifiable v = True"

definition js_String :: "jsval \<Rightarrow> string result" where
  "js_String v = (if stringifiable v then Inr (to_string v) else Inl TypeError)"

subsection \<open>lodash and string methods\<close>

definition isString :: "jsval \<Rightarrow> bool" where
  "isString v = (case v of JStr s \<Rightarrow> True | _ \<Rightarrow> False)"

definition isArray :: "jsval \<Rightarrow> bool" where
  "isArray v = (case v of JArr xs \<Rightarrow> True | _ \<Rightarrow> False)"

text \<open>\<open>_.isObject\<close>: a truthy value whose \<open>typeof\<close> is \<open>object\<close> or \<open>function\<close>.\<close>

definition isObject :: "jsval \<Rightarrow> bool" where
  "isObject v = (case v of JObj kvs \<Rightarrow> True | JArr xs \<Rightarrow> True | Builtin \<Rightarrow> True | _ \<Rightarrow> False)"

text \<open>
  \<open>v.replace(re, s)\<close>. Only a string has a callable \<open>replace\<close>: on \<open>undefined\<close> and
  \<open>null\<close> the property read throws, and on every other value the property is missing or
  is plain data, so the call throws. The function argument is the effect of the
  replacement on the string.
\<close>

definition call_replace :: "jsval \<Rightarrow> (string \<Rightarrow> string) \<Rightarrow> jsval result" where
  "call_replace v f = (case v of JStr s \<Rightarrow> Inr (JStr (f s)) | _ \<Rightarrow> Inl TypeError)"

text \<open>
  The length test lodash applies before it walks a collection by index (\<open>isLength\<close>):
  a number that is a non-negative integer no larger than \<open>2^53 - 1\<close>.
\<close>

definition as_length :: "jsval \<Rightarrow> nat option" where
  "as_length v =
     (case v of
        JNum r \<Rightarrow>
          if r \<noteq> [] \<and> list_all is_digit r \<and> read_nat r \<le> 9007199254740991
          then Some (read_nat r) else None
      | _ \<Rightarrow> None)"

text \<open>
  The (key, value) pairs \<open>_.reduce\<close> hands to its callback, in order. An array, a string
  and an object whose \<open>length\<close> passes the length test are walked by index, the key
  being the index;
  any other object is walked over its own properties; everything else has nothing to
  walk.
\<close>

fun collection_pairs :: "jsval \<Rightarrow> (jsval \<times> jsval) list" where
  "collection_pairs (JArr xs) = map (\<lambda>i. (JNum (show_nat i), xs ! i)) [0..<length xs]"
| "collection_pairs (JStr s) = map (\<lambda>i. (JNum (show_nat i), JStr [s ! i])) [0..<length s]"
| "collection_pairs (JObj kvs) =
     (case as_length (property (JObj kvs) ''length'') of
        Some n \<Rightarrow> map (\<lambda>i. (JNum (show_nat i), property (JObj kvs) (show_nat i))) [0..<n]
      | None \<Rightarrow> map (\<lambda>(k, v). (JStr k, v)) kvs)"
| "collection_pairs v = []"

text \<open>
  \<open>_.uniq(list, false, callback)\<close> with the callback \<open>contributor.name\<close>: the loop keeps
  the computed keys it has seen and appends an entry when its key is strictly equal to
  none of them.
\<close>

fun uniq_loop :: "jsval list \<Rightarrow> jsval list \<Rightarrow> jsval list \<Rightarrow> jsval list" where
  "uniq_loop [] seen result = result"
| "uniq_loop (v # vs) seen result =
     (let computed = property v ''name''
      in if list_ex (\<lambda>s. strict_eq s computed) seen
         then uniq_loop vs seen result
         else uniq_loop vs (seen @ [computed]) (result @ [v]))"

definition uniq_by_name :: "jsval list \<Rightarrow> jsval list" where
  "uniq_by_name xs = uniq_loop xs [] []"

text \<open>\<open>_.map\<close> with a callback that may throw: the first throw ends the walk.\<close>

fun map_result :: "('a \<Rightarrow> 'b result) \<Rightarrow> 'a list \<Rightarrow> 'b list result" where
  "map_result f [] = Inr []"
| "map_result f (x # xs) =
     and_then (f x) (\<lambda>y. and_then (map_result f xs) (\<lambda>ys. Inr (y # ys)))"

section \<open>The machine \<open>Parse package.json\<close>\<close>

definition publicRegistry :: string where
  "publicRegistry = ''http://npmjs.org''"

text \<open>Lines 80 to 85: the version.\<close>

definition version_of :: "jsval \<Rightarrow> jsval result" where
  "version_of data =
     and_then (js_get data ''dist-tags'') (\<lambda>dist_tags.
       if truthy dist_tags then js_get dist_tags ''latest''
       else js_get data ''version'')"

text \<open>Lines 91 to 93: \<open>publishConfig && publishConfig.registry || publicRegistry\<close>.\<close>

definition registry_of :: "jsval \<Rightarrow> jsval result" where
  "registry_of publishConfig =
     (if truthy publishConfig
      then and_then (js_get publishConfig ''registry'') (\<lambda>r.
             Inr (if truthy r then r else JStr publicRegistry))
      else Inr (JStr publicRegistry))"

text \<open>Line 97: where the metadata about the latest version is found.\<close>

definition latestVersion_of :: "jsval \<Rightarrow> jsval \<Rightarrow> jsval result" where
  "latestVersion_of data version =
     and_then (js_get data ''versions'') (\<lambda>versions.
       if truthy versions
       then and_then (js_String version) (\<lambda>key. js_get versions key)
       else Inr data)"

text \<open>Lines 100 to 106: the dependencies.\<close>

definition dependencies_of :: "jsval \<Rightarrow> jsval result" where
  "dependencies_of latestVersion =
     and_then (js_get latestVersion ''dependencies'') (\<lambda>deps.
       Inr (JArr (map (\<lambda>(name, semverRange).
                         JObj [(''name'', name), (''semverRange'', semverRange)])
                      (collection_pairs deps))))"

text \<open>
  Lines 109 to 112: the registry url without one trailing slash, \<open>/package/\<close>, and
  the name as \<open>%s\<close> renders it, which is \<open>String(name)\<close> in the \<open>util.format\<close> of
  Node before version 12.
\<close>

definition strip_one_slash :: "string \<Rightarrow> string" where
  "strip_one_slash s = (if s \<noteq> [] \<and> last s = CHR ''/'' then butlast s else s)"

definition npmUrl_of :: "jsval \<Rightarrow> jsval \<Rightarrow> jsval result" where
  "npmUrl_of registry name =
     and_then (call_replace registry strip_one_slash) (\<lambda>r.
     and_then (js_String r) (\<lambda>origin.
     and_then (js_String name) (\<lambda>package.
       Inr (JStr (origin @ ''/package/'' @ package)))))"


subsection \<open>The source code url\<close>

text \<open>
  \<open>/^.*github\.com[:\/]/\<close>: the dot matches any character but a line terminator (of
  the 8-bit characters, line feed and carriage return) and the star is greedy, so the
  match ends at the last \<open>github.com:\<close> or \<open>github.com/\<close> that only such characters
  precede. \<open>github_rest s\<close> is what follows the match in \<open>s\<close>.
\<close>

definition line_terminator :: "char \<Rightarrow> bool" where
  "line_terminator c = (c = CHR 0x0A \<or> c = CHR 0x0D)"

fun github_rest :: "string \<Rightarrow> string option" where
  "github_rest [] = None"
| "github_rest (c # cs) =
     (case (if line_terminator c then None else github_rest cs) of
        Some r \<Rightarrow> Some r
      | None \<Rightarrow>
          if take 11 (c # cs) = ''github.com:'' \<or> take 11 (c # cs) = ''github.com/''
          then Some (drop 11 (c # cs)) else None)"

definition coerce_github :: "string \<Rightarrow> string" where
  "coerce_github s =
     (case github_rest s of Some r \<Rightarrow> ''http://github.com/'' @ r | None \<Rightarrow> s)"

text \<open>\<open>/\.git$/\<close> replaced by nothing: the match starts where exactly \<open>.git\<close> is left.\<close>

fun strip_git :: "string \<Rightarrow> string" where
  "strip_git [] = []"
| "strip_git (c # cs) = (if c # cs = ''.git'' then [] else c # strip_git cs)"

text \<open>
  \<open>/\/*$/\<close> replaced by one slash: the match starts at the first position from which
  only slashes are left, which is the end of the string when it has no trailing slash.
\<close>

fun trailing_slash :: "string \<Rightarrow> string" where
  "trailing_slash [] = ''/''"
| "trailing_slash (c # cs) =
     (if list_all (\<lambda>x. x = CHR ''/'') (c # cs) then ''/'' else c # trailing_slash cs)"

text \<open>Lines 134 to 136, on whatever \<open>repoUrl\<close> holds.\<close>

definition coerce_repoUrl :: "jsval \<Rightarrow> jsval result" where
  "coerce_repoUrl repoUrl =
     and_then (call_replace repoUrl coerce_github) (\<lambda>u1.
     and_then (call_replace u1 strip_git) (\<lambda>u2.
       call_replace u2 trailing_slash))"

text \<open>
  Lines 115 to 143. The inner \<open>try\<close> guards the read of \<open>repository.url\<close> alone; the
  replacements run outside it.
\<close>

definition extractRepoUrl :: "jsval \<Rightarrow> jsval result" where
  "extractRepoUrl latestVersion =
     and_then (js_get latestVersion ''repository'') (\<lambda>repository.
       if isString repository then coerce_repoUrl repository
       else if \<not> isObject repository then Inr Undefined
       else (case js_get repository ''url'' of
               Inl e \<Rightarrow> Inr Undefined
             | Inr repoUrl \<Rightarrow> coerce_repoUrl repoUrl))"

subsection \<open>The contributors\<close>

text \<open>Lines 158 to 163: one entry of the list, as \<open>{name, email}\<close>.\<close>

definition normalize_contributor :: "jsval \<Rightarrow> jsval result" where
  "normalize_contributor contributor =
     and_then (if isString contributor then Inr contributor
               else js_get contributor ''name'') (\<lambda>name.
     and_then (js_get contributor ''email'') (\<lambda>email.
       Inr (JObj [(''name'', name),
                  (''email'', if truthy email then email else Undefined)])))"

definition array_elements :: "jsval \<Rightarrow> jsval list" where
  "array_elements v = (case v of JArr xs \<Rightarrow> xs | _ \<Rightarrow> [])"

text \<open>Lines 147 to 156: author, then contributors, then maintainers.\<close>

definition gather_contributors :: "jsval \<Rightarrow> jsval list result" where
  "gather_contributors latestVersion =
     and_then (js_get latestVersion ''author'') (\<lambda>author.
     and_then (js_get latestVersion ''contributors'') (\<lambda>contributors.
     and_then (js_get latestVersion ''maintainers'') (\<lambda>maintainers.
       Inr ((if truthy author then [author] else [])
            @ (if isArray contributors then array_elements contributors else [])
            @ (if isArray maintainers then array_elements maintainers else [])))))"

text \<open>Lines 146 to 169.\<close>

definition buildAggregatedContributorsList :: "jsval \<Rightarrow> jsval result" where
  "buildAggregatedContributorsList latestVersion =
     and_then (gather_contributors latestVersion) (\<lambda>contributorsList.
     and_then (map_result normalize_contributor contributorsList) (\<lambda>normalized.
       Inr (JArr (uniq_by_name normalized))))"

subsection \<open>The machine's \<open>fn\<close>\<close>

text \<open>
  \<open>moduleMetadata\<close> is the object the machine fills, as the list of its properties in
  the order they are set. \<open>build_metadata\<close> is the body of the second \<open>try\<close> block
  (lines 76 to 169): the metadata, or the error that was thrown.
\<close>

type_synonym metadata = "(string \<times> jsval) list"

definition build_metadata :: "jsval \<Rightarrow> metadata result" where
  "build_metadata data =
     and_then (js_get data ''_id'') (\<lambda>id.
     and_then (if truthy id then Inr id else js_get data ''name'') (\<lambda>name.
     and_then (js_get data ''description'') (\<lambda>description.
     and_then (js_get data ''keywords'') (\<lambda>keywords.
     and_then (version_of data) (\<lambda>version.
     and_then (js_get data ''time'') (\<lambda>time.
     and_then (if truthy time then js_get time ''modified'' else Inr (JStr [])) (\<lambda>publishedAt.
     and_then (js_get data ''author'') (\<lambda>author.
     and_then (js_get data ''license'') (\<lambda>license.
     and_then (js_get data ''private'') (\<lambda>private.
     and_then (js_get data ''publishConfig'') (\<lambda>publishConfig.
     and_then (registry_of publishConfig) (\<lambda>registry.
     and_then (latestVersion_of data version) (\<lambda>latestVersion.
     and_then (dependencies_of latestVersion) (\<lambda>dependencies.
     and_then (npmUrl_of registry name) (\<lambda>npmUrl.
     and_then (extractRepoUrl latestVersion) (\<lambda>sourceUrl.
     and_then (buildAggregatedContributorsList latestVersion) (\<lambda>contributors.
       Inr [(''name'', name),
            (''description'', description),
            (''keywords'', keywords),
            (''version'', version),
            (''latestVersionPublishedAt'', publishedAt),
            (''author'', author),
            (''license'', license),
            (''private'', private),
            (''publishConfig'', publishConfig),
            (''registry'', registry),
            (''usesPublicRegistry'', JBool (strict_eq registry (JStr publicRegistry))),
            (''dependencies'', dependencies),
            (''npmUrl'', npmUrl),
            (''sourceUrl'', sourceUrl),
            (''contributors'', contributors)])))))))))))))))))"

text \<open>
  The exits the machine declares. \<open>JSON.parse\<close> belongs to the platform: \<open>fn\<close> takes
  it as \<open>parse\<close>, which gives \<open>None\<close> where \<open>JSON.parse\<close> throws its SyntaxError.
\<close>

datatype exit = Exit_success metadata | Exit_invalid error | Exit_error error

record inputs =
  json :: string

text \<open>\<open>fn\<close> from the point where \<open>JSON.parse\<close> has returned or thrown.\<close>

definition fn_parsed :: "jsval option \<Rightarrow> exit" where
  "fn_parsed parsed =
     (case parsed of
        None \<Rightarrow> Exit_invalid SyntaxError
      | Some data \<Rightarrow>
          (case build_metadata data of
             Inl e \<Rightarrow> Exit_invalid e
           | Inr moduleMetadata \<Rightarrow> Exit_success moduleMetadata))"

definition fn :: "(string \<Rightarrow> jsval option) \<Rightarrow> inputs \<Rightarrow> exit" where
  "fn parse inputs = fn_parsed (parse (json inputs))"

definition exit_name :: "exit \<Rightarrow> string" where
  "exit_name x =
     (case x of Exit_success m \<Rightarrow> ''success'' | Exit_invalid e \<Rightarrow> ''invalid''
      | Exit_error e \<Rightarrow> ''error'')"

text \<open>A field of the record a run returned, read as a caller would.\<close>

definition output_field :: "exit \<Rightarrow> string \<Rightarrow> jsval option" where
  "output_field x k = (case x of Exit_success m \<Rightarrow> map_of m k | _ \<Rightarrow> None)"

section \<open>The specification's words\<close>

text \<open>The fields of a complete record, in the order the machine sets them.\<close>

definition record_fields :: "string list" where
  "record_fields =
     [''name'', ''description'', ''keywords'', ''version'', ''latestVersionPublishedAt'',
      ''author'', ''license'', ''private'', ''publishConfig'', ''registry'',
      ''usesPublicRegistry'', ''dependencies'', ''npmUrl'', ''sourceUrl'', ''contributors'']"

text \<open>
  Version resolution as the specification words it: the choice hangs on the document
  having a \<open>dist-tags\<close> field.
\<close>

definition has_field :: "jsval \<Rightarrow> string \<Rightarrow> bool" where
  "has_field v k = (case v of JObj kvs \<Rightarrow> k \<in> set (map fst kvs) | _ \<Rightarrow> False)"

definition claimed_version :: "jsval \<Rightarrow> jsval" where
  "claimed_version data =
     (if has_field data ''dist-tags'' then property (property data ''dist-tags'') ''latest''
      else property data ''version'')"

definition claimed_manifest :: "jsval \<Rightarrow> jsval" where
  "claimed_manifest data =
     (if has_field data ''dist-tags''
      then property (property data ''versions'') (to_string (claimed_version data))
      else data)"

text \<open>
  Version resolution with the two tests the machine makes: a truthy \<open>dist-tags\<close> for
  the version, a truthy \<open>versions\<close> for the manifest.
\<close>

definition effective_version :: "jsval \<Rightarrow> jsval" where
  "effective_version data =
     (if truthy (property data ''dist-tags'') then property (property data ''dist-tags'') ''latest''
      else property data ''version'')"

definition resolved_manifest :: "jsval \<Rightarrow> jsval" where
  "resolved_manifest data =
     (if truthy (property data ''versions'')
      then property (property data ''versions'') (to_string (effective_version data))
      else data)"

text \<open>
  Contributors as the specification words them: the author if there is one, the
  entries of \<open>contributors\<close>, the entries of \<open>maintainers\<close>; each entry as name and
  email; of the entries that share a name, only the first.
\<close>

definition contributor_sources :: "jsval \<Rightarrow> jsval list" where
  "contributor_sources manifest =
     (if truthy (property manifest ''author'') then [property manifest ''author''] else [])
     @ array_elements (property manifest ''contributors'')
     @ array_elements (property manifest ''maintainers'')"

definition contributor_entry :: "jsval \<Rightarrow> jsval" where
  "contributor_entry c =
     JObj [(''name'', case c of JStr s \<Rightarrow> c | _ \<Rightarrow> property c ''name''),
           (''email'', if truthy (property c ''email'') then property c ''email''
                       else Undefined)]"

definition same_name :: "jsval \<Rightarrow> jsval \<Rightarrow> bool" where
  "same_name a b = strict_eq (property a ''name'') (property b ''name'')"

fun first_by_name :: "jsval list \<Rightarrow> jsval list" where
  "first_by_name [] = []"
| "first_by_name (x # xs) = x # first_by_name (filter (\<lambda>y. \<not> same_name x y) xs)"

text \<open>What it is for a url to end in exactly one slash.\<close>

definition one_trailing_slash :: "string \<Rightarrow> bool" where
  "one_trailing_slash u =
     (u \<noteq> [] \<and> last u = CHR ''/'' \<and> (butlast u = [] \<or> last (butlast u) \<noteq> CHR ''/''))"

section \<open>Sample documents\<close>

text \<open>A registry document whose \<open>versions\<close> has no entry for the latest version.\<close>

definition text_missing_version :: string where
  \<open>text_missing_version = ''{"dist-tags":{"latest":"2.0.0"},"versions":{"1.0.0":{}}}''\<close>

definition doc_missing_version :: jsval where
  "doc_missing_version =
     JObj [(''dist-tags'', JObj [(''latest'', JStr ''2.0.0'')]),
           (''versions'', JObj [(''1.0.0'', JObj [])])]"

text \<open>A document with \<open>versions\<close> and no \<open>dist-tags\<close>.\<close>

definition text_versions_only :: string where
  \<open>text_versions_only =
     ''{"version":"1.0.0","dependencies":{"b":"^2"},"versions":{"1.0.0":{"dependencies":{"a":"^1"}}}}''\<close>

definition doc_versions_only :: jsval where
  "doc_versions_only =
     JObj [(''version'', JStr ''1.0.0''),
           (''dependencies'', JObj [(''b'', JStr ''^2'')]),
           (''versions'',
              JObj [(''1.0.0'', JObj [(''dependencies'', JObj [(''a'', JStr ''^1'')])])])]"

text \<open>A flat manifest.\<close>

definition text_flat :: string where
  \<open>text_flat =
     ''{"name":"foo","version":"1.0.0","author":"Ann","contributors":[{"name":"Ann"},{"name":"Bob"}],''
     @ ''"repository":"git@github.com:owner/repo.git","publishConfig":{"registry":"http://npmjs.org/"},''
     @ ''"dependencies":{"lodash":"^2.4.1","async":"~1.0"}}''\<close>

definition doc_flat :: jsval where
  "doc_flat =
     JObj [(''name'', JStr ''foo''),
           (''version'', JStr ''1.0.0''),
           (''author'', JStr ''Ann''),
           (''contributors'', JArr [JObj [(''name'', JStr ''Ann'')], JObj [(''name'', JStr ''Bob'')]]),
           (''repository'', JStr ''git@github.com:owner/repo.git''),
           (''publishConfig'', JObj [(''registry'', JStr ''http://npmjs.org/'')]),
           (''dependencies'', JObj [(''lodash'', JStr ''^2.4.1''), (''async'', JStr ''~1.0'')])]"

text \<open>A flat manifest with nothing but a name and a repository object.\<close>

definition text_plain :: string where
  \<open>text_plain = ''{"name":"bar","repository":{"type":"git","url":"git://github.com/owner/repo"}}''\<close>

definition doc_plain :: jsval where
  "doc_plain =
     JObj [(''name'', JStr ''bar''),
           (''repository'',
              JObj [(''type'', JStr ''git''), (''url'', JStr ''git://github.com/owner/repo'')])]"

text \<open>A registry document whose top-level author is not the author of the latest version.\<close>

definition text_registry :: string where
  \<open>text_registry =
     ''{"_id":"foo","author":{"name":"Old"},"dist-tags":{"latest":"2.0.0"},''
     @ ''"time":{"modified":"2015-01-19T22:26:54.588Z"},''
     @ ''"versions":{"1.0.0":{"author":"Old"},''
     @ ''"2.0.0":{"author":"New","maintainers":[{"name":"New","email":"n@x.org"}],''
     @ ''"repository":42}}}''\<close>

definition doc_registry :: jsval where
  "doc_registry =
     JObj [(''_id'', JStr ''foo''),
           (''author'', JObj [(''name'', JStr ''Old'')]),
           (''dist-tags'', JObj [(''latest'', JStr ''2.0.0'')]),
           (''time'', JObj [(''modified'', JStr ''2015-01-19T22:26:54.588Z'')]),
           (''versions'',
              JObj [(''1.0.0'', JObj [(''author'', JStr ''Old'')]),
                    (''2.0.0'',
                       JObj [(''author'', JStr ''New''),
                             (''maintainers'',
                                JArr [JObj [(''name'', JStr ''New''), (''email'', JStr ''n@x.org'')]]),
                             (''repository'', JNum ''42'')])])]"

text \<open>A document cut off in the middle.\<close>

definition text_truncated :: string where
  \<open>text_truncated = ''{"name":"foo","version":''\<close>

text \<open>
  \<open>JSON.parse\<close> tabulated on the sample texts: each complete text with the document it
  denotes, and no entry for the truncated one, which \<open>JSON.parse\<close> rejects. The table is
  applied to these texts only.
\<close>

definition sample_parse :: "string \<Rightarrow> jsval option" where
  "sample_parse =
     map_of [(text_missing_version, doc_missing_version),
             (text_versions_only, doc_versions_only),
             (text_flat, doc_flat),
             (text_plain, doc_plain),
             (text_registry, doc_registry)]"

section \<open>Basic facts\<close>

lemma and_then_Inl [simp]: "and_then (Inl e) f = Inl e"
  by (simp add: and_then_def)

lemma and_then_Inr [simp]: "and_then (Inr v) f = f v"
  by (simp add: and_then_def)

lemma and_then_eq_Inr: "and_then r f = Inr y \<longleftrightarrow> (\<exists>v. r = Inr v \<and> f v = Inr y)"
  by (cases r) simp_all

lemma js_get_ok: "\<not> nullish v \<Longrightarrow> js_get v k = Inr (property v k)"
  by (simp add: js_get_def)

lemma js_get_eq_Inr: "js_get v k = Inr x \<longleftrightarrow> \<not> nullish v \<and> x = property v k"
  by (auto simp: js_get_def)

lemma truthy_not_nullish: "truthy v \<Longrightarrow> \<not> nullish v"
  by (cases v) simp_all

lemma version_of_ok: "\<not> nullish data \<Longrightarrow> version_of data = Inr (effective_version data)"
  by (simp add: version_of_def effective_version_def js_get_ok truthy_not_nullish)

lemma latestVersion_of_Inr:
  "latestVersion_of data (effective_version data) = Inr latestVersion \<Longrightarrow>
   latestVersion = resolved_manifest data"
  by (auto simp: latestVersion_of_def resolved_manifest_def js_String_def js_get_eq_Inr
        and_then_eq_Inr split: if_splits)

text \<open>What a successful run of the \<open>try\<close> block has computed.\<close>

lemma build_metadata_Inr:
  assumes "build_metadata data = Inr m"
  obtains registry dependencies sourceUrl contributors where
    "\<not> nullish data"
    "registry_of (property data ''publishConfig'') = Inr registry"
    "dependencies_of (resolved_manifest data) = Inr dependencies"
    "extractRepoUrl (resolved_manifest data) = Inr sourceUrl"
    "buildAggregatedContributorsList (resolved_manifest data) = Inr contributors"
    "map fst m = record_fields"
    "map_of m ''version'' = Some (effective_version data)"
    "map_of m ''author'' = Some (property data ''author'')"
    "map_of m ''registry'' = Some registry"
    "map_of m ''usesPublicRegistry'' = Some (JBool (strict_eq registry (JStr publicRegistry)))"
    "map_of m ''dependencies'' = Some dependencies"
    "map_of m ''sourceUrl'' = Some sourceUrl"
    "map_of m ''contributors'' = Some contributors"
proof -
  have n: "\<not> nullish data"
    using assms by (auto simp: build_metadata_def js_get_def)
  show thesis
    using assms n
    by (auto simp: build_metadata_def js_get_ok version_of_ok and_then_eq_Inr
          record_fields_def dest!: latestVersion_of_Inr intro!: that split: if_splits)
qed

text \<open>Every throw inside the \<open>try\<close> block is a TypeError.\<close>

lemma and_then_no_SyntaxError:
  "r \<noteq> Inl SyntaxError \<Longrightarrow> (\<And>v. f v \<noteq> Inl SyntaxError) \<Longrightarrow> and_then r f \<noteq> Inl SyntaxError"
  by (cases r) simp_all

lemma js_get_no_SyntaxError: "js_get v k \<noteq> Inl SyntaxError"
  by (simp add: js_get_def)

lemma js_String_no_SyntaxError: "js_String v \<noteq> Inl SyntaxError"
  by (simp add: js_String_def)

lemma call_replace_no_SyntaxError: "call_replace v f \<noteq> Inl SyntaxError"
  by (cases v) (simp_all add: call_replace_def)

lemma map_result_no_SyntaxError:
  "(\<And>x. f x \<noteq> Inl SyntaxError) \<Longrightarrow> map_result f xs \<noteq> Inl SyntaxError"
  by (induction xs) (simp_all add: and_then_no_SyntaxError)

lemmas no_SyntaxError =
  and_then_no_SyntaxError js_get_no_SyntaxError js_String_no_SyntaxError
  call_replace_no_SyntaxError map_result_no_SyntaxError

lemma normalize_contributor_no_SyntaxError: "normalize_contributor c \<noteq> Inl SyntaxError"
  unfolding normalize_contributor_def
  by (intro and_then_no_SyntaxError) (simp_all add: js_get_no_SyntaxError)

lemma coerce_repoUrl_no_SyntaxError: "coerce_repoUrl v \<noteq> Inl SyntaxError"
  unfolding coerce_repoUrl_def
  by (intro no_SyntaxError)

lemma extractRepoUrl_no_SyntaxError: "extractRepoUrl v \<noteq> Inl SyntaxError"
  unfolding extractRepoUrl_def
  by (intro and_then_no_SyntaxError js_get_no_SyntaxError)
     (simp add: coerce_repoUrl_no_SyntaxError split: sum.splits)

lemma buildAggregatedContributorsList_no_SyntaxError:
  "buildAggregatedContributorsList v \<noteq> Inl SyntaxError"
  unfolding buildAggregatedContributorsList_def gather_contributors_def
  by (intro no_SyntaxError normalize_contributor_no_SyntaxError) simp_all

lemma build_metadata_no_SyntaxError: "build_metadata data \<noteq> Inl SyntaxError"
  unfolding build_metadata_def version_of_def registry_of_def latestVersion_of_def
    dependencies_of_def npmUrl_of_def
  by (intro and_then_no_SyntaxError extractRepoUrl_no_SyntaxError
        buildAggregatedContributorsList_no_SyntaxError)
     (simp_all add: no_SyntaxError)

lemma build_metadata_error: "build_metadata data = Inl e \<Longrightarrow> e = TypeError"
  using build_metadata_no_SyntaxError [of data] by (cases e) simp_all

lemma fn_success:
  "fn parse i = Exit_success m \<longleftrightarrow>
     (\<exists>data. parse (json i) = Some data \<and> build_metadata data = Inr m)"
  by (auto simp: fn_def fn_parsed_def split: option.splits sum.splits)

section \<open>The samples, evaluated\<close>

lemmas sample_texts = text_missing_version_def text_versions_only_def text_flat_def
  text_plain_def text_registry_def text_truncated_def

lemma sample_parse_truncated: "sample_parse text_truncated = None"
  by (simp add: sample_parse_def sample_texts)

lemma sample_parse_missing_version: "sample_parse text_missing_version = Some doc_missing_version"
  by (simp add: sample_parse_def sample_texts)

lemma sample_parse_versions_only: "sample_parse text_versions_only = Some doc_versions_only"
  by (simp add: sample_parse_def sample_texts)

lemma sample_parse_flat: "sample_parse text_flat = Some doc_flat"
  by (simp add: sample_parse_def sample_texts)

lemma sample_parse_plain: "sample_parse text_plain = Some doc_plain"
  by (simp add: sample_parse_def sample_texts)

lemma sample_parse_registry: "sample_parse text_registry = Some doc_registry"
  by (simp add: sample_parse_def sample_texts)

lemma build_missing_version: "build_metadata doc_missing_version = Inl TypeError"
  by code_simp

lemma build_versions_only:
  "build_metadata doc_versions_only =
     Inr [(''name'', Undefined), (''description'', Undefined),
      (''keywords'', Undefined), (''version'', JStr ''1.0.0''),
      (''latestVersionPublishedAt'', JStr []), (''author'', Undefined),
      (''license'', Undefined), (''private'', Undefined),
      (''publishConfig'', Undefined),
      (''registry'', JStr ''http://npmjs.org''),
      (''usesPublicRegistry'', JBool True),
      (''dependencies'',
       JArr
        [JObj [(''name'', JStr ''a''), (''semverRange'', JStr ''^1'')]]),
      (''npmUrl'', JStr ''http://npmjs.org/package/undefined''),
      (''sourceUrl'', Undefined), (''contributors'', JArr [])]"
  by code_simp

lemma build_flat:
  "build_metadata doc_flat =
    Inr [(''name'', JStr ''foo''), (''description'', Undefined),
      (''keywords'', Undefined), (''version'', JStr ''1.0.0''),
      (''latestVersionPublishedAt'', JStr []), (''author'', JStr ''Ann''),
      (''license'', Undefined), (''private'', Undefined),
      (''publishConfig'',
       JObj [(''registry'', JStr ''http://npmjs.org/'')]),
      (''registry'', JStr ''http://npmjs.org/''),
      (''usesPublicRegistry'', JBool False),
      (''dependencies'',
       JArr
        [JObj
          [(''name'', JStr ''lodash''), (''semverRange'', JStr ''^2.4.1'')],
         JObj
          [(''name'', JStr ''async''), (''semverRange'', JStr ''~1.0'')]]),
      (''npmUrl'', JStr ''http://npmjs.org/package/foo''),
      (''sourceUrl'', JStr ''http://github.com/owner/repo/''),
      (''contributors'',
       JArr
        [JObj [(''name'', JStr ''Ann''), (''email'', Undefined)],
         JObj [(''name'', JStr ''Bob''), (''email'', Undefined)]])]"
  by code_simp

lemma build_plain:
  "build_metadata doc_plain =
    Inr [(''name'', JStr ''bar''), (''description'', Undefined),
      (''keywords'', Undefined), (''version'', Undefined),
      (''latestVersionPublishedAt'', JStr []), (''author'', Undefined),
      (''license'', Undefined), (''private'', Undefined),
      (''publishConfig'', Undefined),
      (''registry'', JStr ''http://npmjs.org''),
      (''usesPublicRegistry'', JBool True), (''dependencies'', JArr []),
      (''npmUrl'', JStr ''http://npmjs.org/package/bar''),
      (''sourceUrl'', JStr ''http://github.com/owner/repo/''),
      (''contributors'', JArr [])]"
  by code_simp

lemma build_registry:
  "build_metadata doc_registry =
    Inr [(''name'', JStr ''foo''), (''description'', Undefined),
      (''keywords'', Undefined), (''version'', JStr ''2.0.0''),
      (''latestVersionPublishedAt'', JStr ''2015-01-19T22:26:54.588Z''),
      (''author'', JObj [(''name'', JStr ''Old'')]),
      (''license'', Undefined), (''private'', Undefined),
      (''publishConfig'', Undefined),
      (''registry'', JStr ''http://npmjs.org''),
      (''usesPublicRegistry'', JBool True), (''dependencies'', JArr []),
      (''npmUrl'', JStr ''http://npmjs.org/package/foo''),
      (''sourceUrl'', Undefined),
      (''contributors'',
       JArr [JObj [(''name'', JStr ''New''), (''email'', Undefined)]])]"
  by code_simp

section \<open>Failure\<close>

text \<open>
  C8. A text that \<open>JSON.parse\<close> rejects sends the machine through its \<open>invalid\<close> exit
  with the SyntaxError, and no record comes back. Whatever the text, the machine either
  returns a record that has every field, or fails through \<open>invalid\<close>: a record with
  only some of the fields set is never returned.
\<close>

theorem unparseable_is_invalid_and_record_complete:
  "(parse (json i) = None \<longrightarrow> fn parse i = Exit_invalid SyntaxError)
   \<and> (\<forall>m. fn parse i = Exit_success m \<longrightarrow> map fst m = record_fields)
   \<and> ((\<exists>m. fn parse i = Exit_success m) \<or> (\<exists>e. fn parse i = Exit_invalid e))"
proof (intro conjI allI impI)
  assume "parse (json i) = None"
  then show "fn parse i = Exit_invalid SyntaxError"
    by (simp add: fn_def fn_parsed_def)
next
  fix m assume "fn parse i = Exit_success m"
  then obtain data where "build_metadata data = Inr m"
    by (auto simp: fn_success)
  then show "map fst m = record_fields"
    by (rule build_metadata_Inr)
next
  show "(\<exists>m. fn parse i = Exit_success m) \<or> (\<exists>e. fn parse i = Exit_invalid e)"
    by (simp add: fn_def fn_parsed_def split: option.splits sum.splits)
qed

theorem unparseable_is_invalid_and_record_complete_witness:
  "sample_parse (json \<lparr>json = text_truncated\<rparr>) = None
   \<and> fn sample_parse \<lparr>json = text_truncated\<rparr> = Exit_invalid SyntaxError
   \<and> (\<exists>m. fn sample_parse \<lparr>json = text_flat\<rparr> = Exit_success m \<and> map fst m = record_fields)"
  using unparseable_is_invalid_and_record_complete [of sample_parse "\<lparr>json = text_truncated\<rparr>"]
        unparseable_is_invalid_and_record_complete [of sample_parse "\<lparr>json = text_flat\<rparr>"]
  by (simp add: sample_parse_truncated sample_parse_flat fn_def fn_parsed_def build_flat)

text \<open>
  C9. A text that \<open>JSON.parse\<close> rejects and a throw while the fields are derived both
  leave through the exit \<open>invalid\<close>, the first with the SyntaxError and the second
  with a TypeError; the exit \<open>error\<close> is never taken. The exit alone does not tell a
  caller which of the two happened.
\<close>

theorem parse_failure_and_derivation_throw_share_exit:
  "(parse (json i) = None \<longrightarrow>
      fn parse i = Exit_invalid SyntaxError \<and> exit_name (fn parse i) = ''invalid'')
   \<and> (\<forall>data e. parse (json i) = Some data \<and> build_metadata data = Inl e \<longrightarrow>
      fn parse i = Exit_invalid TypeError \<and> exit_name (fn parse i) = ''invalid'')
   \<and> exit_name (fn parse i) \<noteq> ''error''"
proof (intro conjI allI impI)
  assume "parse (json i) = None"
  then show "fn parse i = Exit_invalid SyntaxError" and "exit_name (fn parse i) = ''invalid''"
    by (simp_all add: fn_def fn_parsed_def exit_name_def)
next
  fix data e
  assume a: "parse (json i) = Some data \<and> build_metadata data = Inl e"
  then have "e = TypeError"
    using build_metadata_error by blast
  with a show "fn parse i = Exit_invalid TypeError" and "exit_name (fn parse i) = ''invalid''"
    by (simp_all add: fn_def fn_parsed_def exit_name_def)
next
  show "exit_name (fn parse i) \<noteq> ''error''"
    by (simp add: fn_def fn_parsed_def exit_name_def split: option.splits sum.splits)
qed

theorem parse_failure_and_derivation_throw_share_exit_witness:
  "sample_parse (json \<lparr>json = text_truncated\<rparr>) = None
   \<and> fn sample_parse \<lparr>json = text_truncated\<rparr> = Exit_invalid SyntaxError
   \<and> exit_name (fn sample_parse \<lparr>json = text_truncated\<rparr>) = ''invalid''
   \<and> sample_parse (json \<lparr>json = text_missing_version\<rparr>) = Some doc_missing_version
   \<and> build_metadata doc_missing_version = Inl TypeError
   \<and> fn sample_parse \<lparr>json = text_missing_version\<rparr> = Exit_invalid TypeError
   \<and> exit_name (fn sample_parse \<lparr>json = text_missing_version\<rparr>) = ''invalid''"
proof -
  note t = parse_failure_and_derivation_throw_share_exit
             [of sample_parse "\<lparr>json = text_truncated\<rparr>"]
  note v = parse_failure_and_derivation_throw_share_exit
             [of sample_parse "\<lparr>json = text_missing_version\<rparr>"]
  have 1: "sample_parse (json \<lparr>json = text_truncated\<rparr>) = None"
    by (simp add: sample_parse_truncated)
  have 2: "sample_parse (json \<lparr>json = text_missing_version\<rparr>) = Some doc_missing_version"
    by (simp add: sample_parse_missing_version)
  note 3 = build_missing_version
  from t 1 have 4: "fn sample_parse \<lparr>json = text_truncated\<rparr> = Exit_invalid SyntaxError"
    and 5: "exit_name (fn sample_parse \<lparr>json = text_truncated\<rparr>) = ''invalid''"
    by blast+
  from v 2 3 have 6: "fn sample_parse \<lparr>json = text_missing_version\<rparr> = Exit_invalid TypeError"
    and 7: "exit_name (fn sample_parse \<lparr>json = text_missing_version\<rparr>) = ''invalid''"
    by blast+
  from 1 2 3 4 5 6 7 show ?thesis
    by blast
qed

section \<open>The author field\<close>

text \<open>
  C10. A record the machine returns has a field \<open>author\<close>, and it holds the \<open>author\<close>
  of the document's top level as it stands, also when the contributors come from the
  manifest of the latest version.
\<close>

theorem author_copied_from_top_level:
  assumes "parse (json i) = Some data" and "fn parse i = Exit_success m"
  shows "map_of m ''author'' = Some (property data ''author'') \<and> ''author'' \<in> set (map fst m)"
proof
  from assms have b: "build_metadata data = Inr m"
    by (simp add: fn_success)
  from b show "map_of m ''author'' = Some (property data ''author'')"
    by (rule build_metadata_Inr)
  from b have "map fst m = record_fields"
    by (rule build_metadata_Inr)
  then show "''author'' \<in> set (map fst m)"
    by (simp add: record_fields_def)
qed

theorem author_copied_from_top_level_witness:
  "sample_parse (json \<lparr>json = text_registry\<rparr>) = Some doc_registry
   \<and> output_field (fn sample_parse \<lparr>json = text_registry\<rparr>) ''author''
       = Some (JObj [(''name'', JStr ''Old'')])
   \<and> property doc_registry ''author'' = JObj [(''name'', JStr ''Old'')]
   \<and> property (resolved_manifest doc_registry) ''author'' = JStr ''New''
   \<and> output_field (fn sample_parse \<lparr>json = text_registry\<rparr>) ''contributors''
       = Some (JArr [JObj [(''name'', JStr ''New''), (''email'', Undefined)]])"
  using author_copied_from_top_level [of sample_parse "\<lparr>json = text_registry\<rparr>" doc_registry]
  apply (simp add: sample_parse_registry build_registry fn_def fn_parsed_def output_field_def)
  apply code_simp
  done

section \<open>Version resolution\<close>

lemma build_metadata_nullish_manifest:
  assumes "nullish (resolved_manifest data)"
  shows "build_metadata data = Inl TypeError"
proof (cases "build_metadata data")
  case (Inl e)
  then show ?thesis
    by (simp add: build_metadata_error)
next
  case (Inr m)
  then have "\<exists>d. dependencies_of (resolved_manifest data) = Inr d"
    by (rule build_metadata_Inr) simp
  with assms show ?thesis
    by (simp add: dependencies_of_def js_get_def)
qed

text \<open>
  C1, as the machine has it. When \<open>versions\<close> is an object with no entry for the
  effective version, and the version is not the name of a member every object inherits,
  \<open>versions[version]\<close> is \<open>undefined\<close>, the read of its \<open>dependencies\<close> throws, and
  the machine leaves through \<open>invalid\<close> with the TypeError. Nothing escapes \<open>fn\<close>, and
  no record is returned.
\<close>

theorem missing_version_entry_is_invalid:
  assumes "parse (json i) = Some data"
      and "property data ''versions'' = JObj versions"
      and "map_of versions (to_string (effective_version data)) = None"
      and "to_string (effective_version data) \<notin> set object_prototype_names"
  shows "fn parse i = Exit_invalid TypeError"
proof -
  have "resolved_manifest data = Undefined"
    using assms(2-4) by (simp add: resolved_manifest_def inherited_def)
  then have "build_metadata data = Inl TypeError"
    by (simp add: build_metadata_nullish_manifest)
  then show ?thesis
    using assms(1) by (simp add: fn_def fn_parsed_def)
qed

theorem missing_version_entry_is_invalid_witness:
  "sample_parse (json \<lparr>json = text_missing_version\<rparr>) = Some doc_missing_version
   \<and> property doc_missing_version ''versions'' = JObj [(''1.0.0'', JObj [])]
   \<and> map_of [(''1.0.0'', JObj [])] (to_string (effective_version doc_missing_version)) = None
   \<and> to_string (effective_version doc_missing_version) \<notin> set object_prototype_names
   \<and> fn sample_parse \<lparr>json = text_missing_version\<rparr> = Exit_invalid TypeError"
proof -
  have 1: "sample_parse (json \<lparr>json = text_missing_version\<rparr>) = Some doc_missing_version"
    by (simp add: sample_parse_missing_version)
  have 2: "property doc_missing_version ''versions'' = JObj [(''1.0.0'', JObj [])]"
    by code_simp
  have 3: "map_of [(''1.0.0'', JObj [])] (to_string (effective_version doc_missing_version)) = None"
    by code_simp
  have 4: "to_string (effective_version doc_missing_version) \<notin> set object_prototype_names"
    by code_simp
  show ?thesis
    using 1 2 3 4
      missing_version_entry_is_invalid [of sample_parse "\<lparr>json = text_missing_version\<rparr>" doc_missing_version
            "[(''1.0.0'', JObj [])]", OF 1 2 3 4]
    by simp
qed

text \<open>
  C1 as worded promises a record with empty fields for such a document. The sample
  document with \<open>dist-tags.latest = 2.0.0\<close> and only \<open>1.0.0\<close> under \<open>versions\<close> gets
  none.
\<close>

theorem missing_version_entry_is_invalid_counterexample:
  "property doc_missing_version ''versions'' = JObj [(''1.0.0'', JObj [])]
   \<and> property (property doc_missing_version ''dist-tags'') ''latest'' = JStr ''2.0.0''
   \<and> map_of [(''1.0.0'', JObj [])] ''2.0.0'' = None
   \<and> sample_parse text_missing_version = Some doc_missing_version
   \<and> fn sample_parse \<lparr>json = text_missing_version\<rparr> = Exit_invalid TypeError"
  by (simp add: sample_parse_missing_version fn_def fn_parsed_def build_missing_version)
     (simp add: doc_missing_version_def)

text \<open>
  C2, as the machine has it. In a record the machine returns, \<open>version\<close> is
  \<open>dist-tags.latest\<close> when \<open>dist-tags\<close> is truthy and the document's \<open>version\<close>
  otherwise; \<open>dependencies\<close>, \<open>sourceUrl\<close> and \<open>contributors\<close> are derived from
  \<open>versions[version]\<close> when \<open>versions\<close> is truthy and from the document itself
  otherwise. The two choices are made by two separate tests.
\<close>

theorem version_and_manifest_resolution:
  assumes "parse (json i) = Some data" and "fn parse i = Exit_success m"
  shows "map_of m ''version'' = Some (effective_version data)
       \<and> map_option Inr (map_of m ''dependencies'')
           = Some (dependencies_of (resolved_manifest data))
       \<and> map_option Inr (map_of m ''sourceUrl'')
           = Some (extractRepoUrl (resolved_manifest data))
       \<and> map_option Inr (map_of m ''contributors'')
           = Some (buildAggregatedContributorsList (resolved_manifest data))"
proof -
  from assms have "build_metadata data = Inr m"
    by (simp add: fn_success)
  then show ?thesis
    by (rule build_metadata_Inr) simp
qed

theorem version_and_manifest_resolution_witness:
  "sample_parse (json \<lparr>json = text_registry\<rparr>) = Some doc_registry
   \<and> effective_version doc_registry = JStr ''2.0.0''
   \<and> resolved_manifest doc_registry
       = JObj [(''author'', JStr ''New''),
               (''maintainers'', JArr [JObj [(''name'', JStr ''New''), (''email'', JStr ''n@x.org'')]]),
               (''repository'', JNum ''42'')]
   \<and> output_field (fn sample_parse \<lparr>json = text_registry\<rparr>) ''version'' = Some (JStr ''2.0.0'')
   \<and> dependencies_of (resolved_manifest doc_registry) = Inr (JArr [])
   \<and> extractRepoUrl (resolved_manifest doc_registry) = Inr Undefined
   \<and> buildAggregatedContributorsList (resolved_manifest doc_registry)
       = Inr (JArr [JObj [(''name'', JStr ''New''), (''email'', Undefined)]])"
  using version_and_manifest_resolution [of sample_parse "\<lparr>json = text_registry\<rparr>" doc_registry]
  apply (simp add: sample_parse_registry build_registry fn_def fn_parsed_def output_field_def)
  apply code_simp
  done

text \<open>
  C2 as worded makes the manifest hang on \<open>dist-tags\<close>: a document without it would be
  its own manifest. The sample document has \<open>versions\<close> and no \<open>dist-tags\<close>; its
  own dependencies are \<open>b\<close>, and the record lists \<open>a\<close>, taken from \<open>versions\<close>.
\<close>

theorem version_and_manifest_resolution_counterexample:
  "\<not> has_field doc_versions_only ''dist-tags''
   \<and> claimed_manifest doc_versions_only = doc_versions_only
   \<and> dependencies_of (claimed_manifest doc_versions_only)
       = Inr (JArr [JObj [(''name'', JStr ''b''), (''semverRange'', JStr ''^2'')]])
   \<and> sample_parse text_versions_only = Some doc_versions_only
   \<and> output_field (fn sample_parse \<lparr>json = text_versions_only\<rparr>) ''dependencies''
       = Some (JArr [JObj [(''name'', JStr ''a''), (''semverRange'', JStr ''^1'')]])"
  apply (simp add: sample_parse_versions_only fn_def fn_parsed_def build_versions_only
          output_field_def)
  apply code_simp
  done

section \<open>The registry\<close>

lemma strict_eq_JStr: "strict_eq v (JStr s) \<longleftrightarrow> v = JStr s"
  by (cases v) auto

lemma inherited_not_JStr: "inherited names k \<noteq> JStr s"
  by (simp add: inherited_def)

lemma property_registry_truthy:
  assumes "property pc ''registry'' = JStr s"
  shows "truthy pc"
proof (cases pc)
  case (JStr t)
  show ?thesis
  proof (cases "t = []")
    case True
    with JStr assms show ?thesis
      by (simp add: own_index_def inherited_not_JStr)
  next
    case False
    with JStr show ?thesis by simp
  qed
qed (use assms in \<open>simp_all add: inherited_not_JStr\<close>)

lemma registry_of_absent: "registry_of Undefined = Inr (JStr publicRegistry)"
  by (simp add: registry_of_def)

lemma registry_of_given:
  "property pc ''registry'' = JStr s \<Longrightarrow> s \<noteq> [] \<Longrightarrow> registry_of pc = Inr (JStr s)"
  by (simp add: registry_of_def property_registry_truthy js_get_ok truthy_not_nullish)

text \<open>
  C3. In a record the machine returns, \<open>usesPublicRegistry\<close> is true exactly when
  \<open>registry\<close> is the string \<open>http://npmjs.org\<close>, character for character. A document
  without \<open>publishConfig\<close> gets that registry and \<open>true\<close>; a document whose
  \<open>publishConfig.registry\<close> is \<open>http://npmjs.org/\<close> keeps its registry as given and
  gets \<open>false\<close>, the slash being stripped only later, for \<open>npmUrl\<close>.
\<close>

theorem usesPublicRegistry_is_exact_string_equality:
  assumes "parse (json i) = Some data" and "fn parse i = Exit_success m"
  shows "map_of m ''usesPublicRegistry''
           = Some (JBool (map_of m ''registry'' = Some (JStr ''http://npmjs.org'')))
       \<and> (property data ''publishConfig'' = Undefined \<longrightarrow>
            map_of m ''registry'' = Some (JStr ''http://npmjs.org'')
          \<and> map_of m ''usesPublicRegistry'' = Some (JBool True))
       \<and> (property (property data ''publishConfig'') ''registry'' = JStr ''http://npmjs.org/'' \<longrightarrow>
            map_of m ''registry'' = Some (JStr ''http://npmjs.org/'')
          \<and> map_of m ''usesPublicRegistry'' = Some (JBool False))"
proof -
  from assms have "build_metadata data = Inr m"
    by (simp add: fn_success)
  then obtain registry where
    r: "registry_of (property data ''publishConfig'') = Inr registry"
    and mr: "map_of m ''registry'' = Some registry"
    and mu: "map_of m ''usesPublicRegistry'' = Some (JBool (strict_eq registry (JStr publicRegistry)))"
    by (rule build_metadata_Inr)
  have 1: "map_of m ''usesPublicRegistry''
           = Some (JBool (map_of m ''registry'' = Some (JStr ''http://npmjs.org'')))"
    using mr mu by (simp add: strict_eq_JStr publicRegistry_def)
  have 2: "map_of m ''registry'' = Some (JStr ''http://npmjs.org'')"
    if "property data ''publishConfig'' = Undefined"
    using that r mr by (simp add: registry_of_absent publicRegistry_def)
  have 3: "map_of m ''registry'' = Some (JStr ''http://npmjs.org/'')"
    if "property (property data ''publishConfig'') ''registry'' = JStr ''http://npmjs.org/''"
    using that r mr by (simp add: registry_of_given)
  show ?thesis
    using 1 2 3 by simp
qed

theorem usesPublicRegistry_is_exact_string_equality_witness:
  "sample_parse (json \<lparr>json = text_plain\<rparr>) = Some doc_plain
   \<and> property doc_plain ''publishConfig'' = Undefined
   \<and> output_field (fn sample_parse \<lparr>json = text_plain\<rparr>) ''registry''
       = Some (JStr ''http://npmjs.org'')
   \<and> output_field (fn sample_parse \<lparr>json = text_plain\<rparr>) ''usesPublicRegistry''
       = Some (JBool True)
   \<and> sample_parse (json \<lparr>json = text_flat\<rparr>) = Some doc_flat
   \<and> property (property doc_flat ''publishConfig'') ''registry'' = JStr ''http://npmjs.org/''
   \<and> output_field (fn sample_parse \<lparr>json = text_flat\<rparr>) ''registry''
       = Some (JStr ''http://npmjs.org/'')
   \<and> output_field (fn sample_parse \<lparr>json = text_flat\<rparr>) ''usesPublicRegistry''
       = Some (JBool False)"
  using usesPublicRegistry_is_exact_string_equality [of sample_parse "\<lparr>json = text_plain\<rparr>" doc_plain]
        usesPublicRegistry_is_exact_string_equality [of sample_parse "\<lparr>json = text_flat\<rparr>" doc_flat]
  apply (simp add: sample_parse_plain sample_parse_flat build_plain build_flat
          fn_def fn_parsed_def output_field_def)
  apply code_simp
  done

section \<open>The source url\<close>

lemma trailing_slash_not_Nil: "trailing_slash s \<noteq> []"
  by (cases s) simp_all

lemma trailing_slash_single:
  "trailing_slash s = ''/'' \<Longrightarrow> list_all (\<lambda>x. x = CHR ''/'') s"
proof (cases s)
  case Nil
  then show ?thesis by simp
next
  case (Cons c cs)
  assume "trailing_slash s = ''/''"
  with Cons show ?thesis
    by (auto simp: trailing_slash_not_Nil split: if_splits)
qed

lemma one_trailing_slash_Cons:
  assumes "one_trailing_slash t" and "t = ''/'' \<longrightarrow> c \<noteq> CHR ''/''"
  shows "one_trailing_slash (c # t)"
proof (cases "butlast t = []")
  case True
  with assms(1) have "t = ''/''"
    by (cases t) (auto simp: one_trailing_slash_def split: if_splits)
  with assms(2) show ?thesis
    by (simp add: one_trailing_slash_def)
next
  case False
  with assms(1) show ?thesis
    by (auto simp: one_trailing_slash_def)
qed

lemma one_trailing_slash_trailing_slash: "one_trailing_slash (trailing_slash s)"
proof (induction s)
  case Nil
  show ?case by (simp add: one_trailing_slash_def)
next
  case (Cons c cs)
  show ?case
  proof (cases "list_all (\<lambda>x. x = CHR ''/'') (c # cs)")
    case True
    then show ?thesis by (simp add: one_trailing_slash_def)
  next
    case False
    then have "trailing_slash cs = ''/'' \<longrightarrow> c \<noteq> CHR ''/''"
      using trailing_slash_single [of cs] by auto
    with Cons have "one_trailing_slash (c # trailing_slash cs)"
      by (rule one_trailing_slash_Cons)
    with False show ?thesis
      by auto
  qed
qed

text \<open>The same function, said as the specification says it: strip, then append.\<close>

lemma trailing_slash_strip_append:
  "trailing_slash s = rev (dropWhile (\<lambda>x. x = CHR ''/'') (rev s)) @ ''/''"
proof (induction s)
  case Nil
  show ?case by simp
next
  case (Cons c cs)
  show ?case
  proof (cases "list_all (\<lambda>x. x = CHR ''/'') (c # cs)")
    case True
    then have "dropWhile (\<lambda>x. x = CHR ''/'') (rev (c # cs)) = []"
      by (simp add: list_all_iff)
    with True show ?thesis by simp
  next
    case False
    then have "dropWhile (\<lambda>x. x = CHR ''/'') (rev cs @ [c])
               = dropWhile (\<lambda>x. x = CHR ''/'') (rev cs) @ (if \<forall>x\<in>set cs. x = CHR ''/'' then dropWhile (\<lambda>x. x = CHR ''/'') [c] else [c])"
      by (auto simp: dropWhile_append list_all_iff)
    with False Cons show ?thesis
      by (auto simp: list_all_iff dropWhile_append)
  qed
qed

lemma call_replace_eq_Inr:
  "call_replace v f = Inr x \<longleftrightarrow> (\<exists>s. v = JStr s \<and> x = JStr (f s))"
  by (cases v) (auto simp: call_replace_def)

lemma coerce_repoUrl_JStr:
  "coerce_repoUrl (JStr s) = Inr (JStr (trailing_slash (strip_git (coerce_github s))))"
  by (simp add: coerce_repoUrl_def call_replace_def)

lemma coerce_repoUrl_eq_Inr:
  "coerce_repoUrl v = Inr x \<longleftrightarrow>
     (\<exists>s. v = JStr s \<and> x = JStr (trailing_slash (strip_git (coerce_github s))))"
  by (cases v) (auto simp: coerce_repoUrl_def call_replace_def)

lemma extractRepoUrl_JStr:
  assumes "extractRepoUrl manifest = Inr (JStr u)"
  shows "\<exists>s. u = trailing_slash s"
  using assms
  by (auto simp: extractRepoUrl_def and_then_eq_Inr coerce_repoUrl_eq_Inr
        split: if_splits sum.splits)

lemma ssh_url: "trailing_slash (strip_git (coerce_github ''git@github.com:owner/repo.git''))
    = ''http://github.com/owner/repo/''"
  by code_simp

lemma git_url: "trailing_slash (strip_git (coerce_github ''git://github.com/owner/repo''))
    = ''http://github.com/owner/repo/''"
  by code_simp


lemma extractRepoUrl_string:
  "js_get manifest ''repository'' = Inr (JStr s) \<Longrightarrow>
   extractRepoUrl manifest = Inr (JStr (trailing_slash (strip_git (coerce_github s))))"
  by (simp add: extractRepoUrl_def isString_def coerce_repoUrl_JStr)

lemma extractRepoUrl_other:
  "js_get manifest ''repository'' = Inr r \<Longrightarrow> \<not> isString r \<Longrightarrow> \<not> isObject r \<Longrightarrow>
   extractRepoUrl manifest = Inr Undefined"
  by (simp add: extractRepoUrl_def)

lemma fn_success_exit:
  assumes "parse (json i) = Some data" and "exit_name (fn parse i) = ''success''"
  obtains m where "build_metadata data = Inr m" and "fn parse i = Exit_success m"
  using assms
  by (auto simp: fn_def fn_parsed_def exit_name_def split: sum.splits)

lemma sourceUrl_of_record:
  assumes "parse (json i) = Some data" and "exit_name (fn parse i) = ''success''"
  shows "\<not> nullish (resolved_manifest data)"
    and "map_option Inr (output_field (fn parse i) ''sourceUrl'')
           = Some (extractRepoUrl (resolved_manifest data))"
proof -
  from assms obtain m where b: "build_metadata data = Inr m" and f: "fn parse i = Exit_success m"
    by (rule fn_success_exit)
  from b have e: "\<exists>x. extractRepoUrl (resolved_manifest data) = Inr x"
    by (rule build_metadata_Inr) simp
  then show "\<not> nullish (resolved_manifest data)"
    by (auto simp: extractRepoUrl_def js_get_def split: if_splits)
  from b show "map_option Inr (output_field (fn parse i) ''sourceUrl'')
           = Some (extractRepoUrl (resolved_manifest data))"
    by (rule build_metadata_Inr) (simp add: f output_field_def)
qed

text \<open>
  C4. A manifest whose \<open>repository\<close> is \<open>git@github.com:owner/repo.git\<close>, or
  \<open>git://github.com/owner/repo\<close>, has the source url \<open>http://github.com/owner/repo/\<close>.
  A manifest whose \<open>repository\<close> is neither a string nor an object has the source url
  \<open>undefined\<close>, and deriving it throws nothing; a record returned for such a document
  holds \<open>undefined\<close> in \<open>sourceUrl\<close>.
\<close>

theorem repository_url_canonicalization:
  "(js_get manifest ''repository'' = Inr (JStr ''git@github.com:owner/repo.git'') \<longrightarrow>
      extractRepoUrl manifest = Inr (JStr ''http://github.com/owner/repo/''))
   \<and> (js_get manifest ''repository'' = Inr (JStr ''git://github.com/owner/repo'') \<longrightarrow>
      extractRepoUrl manifest = Inr (JStr ''http://github.com/owner/repo/''))
   \<and> (\<forall>r. js_get manifest ''repository'' = Inr r \<and> \<not> isString r \<and> \<not> isObject r \<longrightarrow>
      extractRepoUrl manifest = Inr Undefined)
   \<and> (parse (json i) = Some data \<and> exit_name (fn parse i) = ''success''
        \<and> \<not> isString (property (resolved_manifest data) ''repository'')
        \<and> \<not> isObject (property (resolved_manifest data) ''repository'') \<longrightarrow>
      output_field (fn parse i) ''sourceUrl'' = Some Undefined)"
proof (intro conjI allI impI)
  assume "js_get manifest ''repository'' = Inr (JStr ''git@github.com:owner/repo.git'')"
  then show "extractRepoUrl manifest = Inr (JStr ''http://github.com/owner/repo/'')"
    by (simp only: extractRepoUrl_string ssh_url)
next
  assume "js_get manifest ''repository'' = Inr (JStr ''git://github.com/owner/repo'')"
  then show "extractRepoUrl manifest = Inr (JStr ''http://github.com/owner/repo/'')"
    by (simp only: extractRepoUrl_string git_url)
next
  fix r
  assume "js_get manifest ''repository'' = Inr r \<and> \<not> isString r \<and> \<not> isObject r"
  then show "extractRepoUrl manifest = Inr Undefined"
    by (simp add: extractRepoUrl_other)
next
  assume a: "parse (json i) = Some data \<and> exit_name (fn parse i) = ''success''
        \<and> \<not> isString (property (resolved_manifest data) ''repository'')
        \<and> \<not> isObject (property (resolved_manifest data) ''repository'')"
  then have n: "\<not> nullish (resolved_manifest data)"
    and s: "map_option Inr (output_field (fn parse i) ''sourceUrl'')
           = Some (extractRepoUrl (resolved_manifest data))"
    using sourceUrl_of_record [of parse i data] by simp_all
  from n a have "extractRepoUrl (resolved_manifest data) = Inr Undefined"
    by (simp add: extractRepoUrl_other js_get_ok)
  with s show "output_field (fn parse i) ''sourceUrl'' = Some Undefined"
    by auto
qed

theorem repository_url_canonicalization_witness:
  "js_get doc_flat ''repository'' = Inr (JStr ''git@github.com:owner/repo.git'')
   \<and> extractRepoUrl doc_flat = Inr (JStr ''http://github.com/owner/repo/'')
   \<and> js_get (JObj [(''repository'', JStr ''git://github.com/owner/repo'')]) ''repository''
       = Inr (JStr ''git://github.com/owner/repo'')
   \<and> extractRepoUrl (JObj [(''repository'', JStr ''git://github.com/owner/repo'')])
       = Inr (JStr ''http://github.com/owner/repo/'')
   \<and> js_get doc_versions_only ''repository'' = Inr Undefined
   \<and> extractRepoUrl doc_versions_only = Inr Undefined
   \<and> js_get (JObj [(''repository'', JNull)]) ''repository'' = Inr JNull
   \<and> extractRepoUrl (JObj [(''repository'', JNull)]) = Inr Undefined
   \<and> sample_parse (json \<lparr>json = text_registry\<rparr>) = Some doc_registry
   \<and> exit_name (fn sample_parse \<lparr>json = text_registry\<rparr>) = ''success''
   \<and> property (resolved_manifest doc_registry) ''repository'' = JNum ''42''
   \<and> output_field (fn sample_parse \<lparr>json = text_registry\<rparr>) ''sourceUrl'' = Some Undefined"
proof -
  have 1: "js_get doc_flat ''repository'' = Inr (JStr ''git@github.com:owner/repo.git'')"
    by code_simp
  have 2: "js_get (JObj [(''repository'', JStr ''git://github.com/owner/repo'')]) ''repository''
       = Inr (JStr ''git://github.com/owner/repo'')"
    by code_simp
  have 3: "js_get doc_versions_only ''repository'' = Inr Undefined"
    by code_simp
  have 4: "js_get (JObj [(''repository'', JNull)]) ''repository'' = Inr JNull"
    by code_simp
  have 5: "property (resolved_manifest doc_registry) ''repository'' = JNum ''42''"
    by code_simp
  have 6: "exit_name (fn sample_parse \<lparr>json = text_registry\<rparr>) = ''success''"
    by (simp add: fn_def fn_parsed_def sample_parse_registry build_registry exit_name_def)
  show ?thesis
    using 1 2 3 4 5 6
      repository_url_canonicalization [of doc_flat sample_parse "\<lparr>json = text_registry\<rparr>" doc_registry]
      repository_url_canonicalization [of "JObj [(''repository'', JStr ''git://github.com/owner/repo'')]"]
      repository_url_canonicalization [of doc_versions_only]
      repository_url_canonicalization [of "JObj [(''repository'', JNull)]"]
    by (simp add: isString_def isObject_def sample_parse_registry)
qed

text \<open>
  C5. Whenever the source url derived from a manifest is a string, it ends in exactly
  one slash: it is not empty, its last character is a slash, and the character before,
  if there is one, is not. The same holds of the \<open>sourceUrl\<close> of every record returned.
\<close>

theorem sourceUrl_ends_with_exactly_one_slash:
  "(extractRepoUrl manifest = Inr (JStr u) \<longrightarrow> one_trailing_slash u)
   \<and> (parse (json i) = Some data
        \<and> output_field (fn parse i) ''sourceUrl'' = Some (JStr v) \<longrightarrow> one_trailing_slash v)"
proof (intro conjI impI)
  assume "extractRepoUrl manifest = Inr (JStr u)"
  then obtain s where "u = trailing_slash s"
    using extractRepoUrl_JStr by blast
  then show "one_trailing_slash u"
    by (simp add: one_trailing_slash_trailing_slash)
next
  assume a: "parse (json i) = Some data
        \<and> output_field (fn parse i) ''sourceUrl'' = Some (JStr v)"
  then have "exit_name (fn parse i) = ''success''"
    by (cases "fn parse i") (simp_all add: output_field_def exit_name_def)
  with a have "extractRepoUrl (resolved_manifest data) = Inr (JStr v)"
    using sourceUrl_of_record(2) [of parse i data] by simp
  then obtain s where "v = trailing_slash s"
    using extractRepoUrl_JStr by blast
  then show "one_trailing_slash v"
    by (simp add: one_trailing_slash_trailing_slash)
qed

theorem sourceUrl_ends_with_exactly_one_slash_witness:
  "extractRepoUrl (JObj [(''repository'', JStr ''https://example.org/a/b.git///'')])
     = Inr (JStr ''https://example.org/a/b.git/'')
   \<and> one_trailing_slash ''https://example.org/a/b.git/''
   \<and> sample_parse (json \<lparr>json = text_plain\<rparr>) = Some doc_plain
   \<and> output_field (fn sample_parse \<lparr>json = text_plain\<rparr>) ''sourceUrl''
       = Some (JStr ''http://github.com/owner/repo/'')
   \<and> one_trailing_slash ''http://github.com/owner/repo/''"
proof -
  have 1: "extractRepoUrl (JObj [(''repository'', JStr ''https://example.org/a/b.git///'')])
     = Inr (JStr ''https://example.org/a/b.git/'')"
    by code_simp
  have 2: "output_field (fn sample_parse \<lparr>json = text_plain\<rparr>) ''sourceUrl''
       = Some (JStr ''http://github.com/owner/repo/'')"
    by (simp add: fn_def fn_parsed_def sample_parse_plain build_plain output_field_def)
  show ?thesis
    using 1 2
      sourceUrl_ends_with_exactly_one_slash [of "JObj [(''repository'', JStr ''https://example.org/a/b.git///'')]"
            "''https://example.org/a/b.git/''" sample_parse "\<lparr>json = text_plain\<rparr>" doc_plain
            "''http://github.com/owner/repo/''"]
    by (simp add: sample_parse_plain)
qed

section \<open>The dependencies\<close>

lemma string_ranges_not_array_like:
  assumes "list_all (\<lambda>(name, range). isString range) deps"
  shows "as_length (property (JObj deps) ''length'') = None"
proof (cases "map_of deps ''length''")
  case None
  then show ?thesis
    by (simp add: inherited_def object_prototype_names_def as_length_def)
next
  case (Some v)
  then have "(''length'', v) \<in> set deps"
    by (rule map_of_SomeD)
  with assms have "isString v"
    by (auto simp: list_all_iff)
  with Some show ?thesis
    by (cases v) (simp_all add: isString_def as_length_def)
qed

lemma dependencies_of_object:
  assumes "\<not> nullish manifest"
      and "property manifest ''dependencies'' = JObj deps"
      and "list_all (\<lambda>(name, range). isString range) deps"
  shows "dependencies_of manifest =
           Inr (JArr (map (\<lambda>(name, range). JObj [(''name'', JStr name), (''semverRange'', range)])
                          deps))"
  using assms string_ranges_not_array_like [OF assms(3)]
  by (simp add: dependencies_of_def js_get_ok case_prod_unfold comp_def)

lemma dependencies_of_absent:
  "\<not> nullish manifest \<Longrightarrow> property manifest ''dependencies'' = Undefined \<Longrightarrow>
   dependencies_of manifest = Inr (JArr [])"
  by (simp add: dependencies_of_def js_get_ok)

lemma record_of_success:
  assumes "parse (json i) = Some data" and "exit_name (fn parse i) = ''success''"
  shows "\<not> nullish data"
    and "output_field (fn parse i) ''version'' = Some (effective_version data)"
    and "map_option Inr (output_field (fn parse i) ''dependencies'')
           = Some (dependencies_of (resolved_manifest data))"
    and "map_option Inr (output_field (fn parse i) ''contributors'')
           = Some (buildAggregatedContributorsList (resolved_manifest data))"
proof -
  from assms obtain m where b: "build_metadata data = Inr m" and f: "fn parse i = Exit_success m"
    by (rule fn_success_exit)
  from b show "\<not> nullish data"
    by (rule build_metadata_Inr)
  from b show "output_field (fn parse i) ''version'' = Some (effective_version data)"
    by (rule build_metadata_Inr) (simp add: f output_field_def)
  from b show "map_option Inr (output_field (fn parse i) ''dependencies'')
           = Some (dependencies_of (resolved_manifest data))"
    by (rule build_metadata_Inr) (simp add: f output_field_def)
  from b show "map_option Inr (output_field (fn parse i) ''contributors'')
           = Some (buildAggregatedContributorsList (resolved_manifest data))"
    by (rule build_metadata_Inr) (simp add: f output_field_def)
qed

text \<open>
  C6. For a flat manifest, one whose \<open>dist-tags\<close> and \<open>versions\<close> are absent (or
  otherwise falsy), a record the machine returns has the manifest's own \<open>version\<close>.
  When the manifest's \<open>dependencies\<close> is an object from names to range strings, the
  record's \<open>dependencies\<close> has one \<open>{name, semverRange}\<close> for each entry, the same
  names and ranges, as many, in the object's own order; when \<open>dependencies\<close> is absent,
  it is the empty list.
\<close>

theorem flat_manifest_version_and_dependencies:
  assumes "parse (json i) = Some data" and "exit_name (fn parse i) = ''success''"
      and "\<not> truthy (property data ''dist-tags'')" and "\<not> truthy (property data ''versions'')"
  shows "output_field (fn parse i) ''version'' = Some (property data ''version'')
       \<and> (property data ''dependencies'' = Undefined \<longrightarrow>
            output_field (fn parse i) ''dependencies'' = Some (JArr []))
       \<and> (\<forall>deps. property data ''dependencies'' = JObj deps
                  \<and> list_all (\<lambda>(name, range). isString range) deps \<longrightarrow>
            output_field (fn parse i) ''dependencies''
              = Some (JArr (map (\<lambda>(name, range).
                                   JObj [(''name'', JStr name), (''semverRange'', range)])
                                deps)))"
proof -
  note r = record_of_success [OF assms(1,2)]
  have v: "effective_version data = property data ''version''"
    using assms(3) by (simp add: effective_version_def)
  have m: "resolved_manifest data = data"
    using assms(4) by (simp add: resolved_manifest_def)
  have 1: "output_field (fn parse i) ''version'' = Some (property data ''version'')"
    using r(2) v by simp
  have 2: "output_field (fn parse i) ''dependencies'' = Some (JArr [])"
    if "property data ''dependencies'' = Undefined"
    using r(1,3) m that by (auto simp: dependencies_of_absent)
  have 3: "output_field (fn parse i) ''dependencies''
              = Some (JArr (map (\<lambda>(name, range).
                                   JObj [(''name'', JStr name), (''semverRange'', range)])
                                deps))"
    if "property data ''dependencies'' = JObj deps"
      and "list_all (\<lambda>(name, range). isString range) deps" for deps
    using r(1,3) m that by (auto simp: dependencies_of_object)
  show ?thesis
    using 1 2 3 by blast
qed

theorem flat_manifest_version_and_dependencies_witness:
  "sample_parse (json \<lparr>json = text_flat\<rparr>) = Some doc_flat
   \<and> exit_name (fn sample_parse \<lparr>json = text_flat\<rparr>) = ''success''
   \<and> property doc_flat ''dist-tags'' = Undefined
   \<and> property doc_flat ''versions'' = Undefined
   \<and> property doc_flat ''version'' = JStr ''1.0.0''
   \<and> property doc_flat ''dependencies''
       = JObj [(''lodash'', JStr ''^2.4.1''), (''async'', JStr ''~1.0'')]
   \<and> output_field (fn sample_parse \<lparr>json = text_flat\<rparr>) ''version'' = Some (JStr ''1.0.0'')
   \<and> output_field (fn sample_parse \<lparr>json = text_flat\<rparr>) ''dependencies''
       = Some (JArr [JObj [(''name'', JStr ''lodash''), (''semverRange'', JStr ''^2.4.1'')],
                     JObj [(''name'', JStr ''async''), (''semverRange'', JStr ''~1.0'')]])
   \<and> sample_parse (json \<lparr>json = text_plain\<rparr>) = Some doc_plain
   \<and> exit_name (fn sample_parse \<lparr>json = text_plain\<rparr>) = ''success''
   \<and> property doc_plain ''dependencies'' = Undefined
   \<and> output_field (fn sample_parse \<lparr>json = text_plain\<rparr>) ''dependencies'' = Some (JArr [])"
proof -
  have f: "sample_parse (json \<lparr>json = text_flat\<rparr>) = Some doc_flat"
    "exit_name (fn sample_parse \<lparr>json = text_flat\<rparr>) = ''success''"
    by (simp_all add: fn_def fn_parsed_def sample_parse_flat build_flat exit_name_def)
  have f': "property doc_flat ''dist-tags'' = Undefined"
    "property doc_flat ''versions'' = Undefined"
    "property doc_flat ''version'' = JStr ''1.0.0''"
    "property doc_flat ''dependencies''
       = JObj [(''lodash'', JStr ''^2.4.1''), (''async'', JStr ''~1.0'')]"
    by code_simp+
  have p: "sample_parse (json \<lparr>json = text_plain\<rparr>) = Some doc_plain"
    "exit_name (fn sample_parse \<lparr>json = text_plain\<rparr>) = ''success''"
    by (simp_all add: fn_def fn_parsed_def sample_parse_plain build_plain exit_name_def)
  have p': "property doc_plain ''dist-tags'' = Undefined"
    "property doc_plain ''versions'' = Undefined"
    "property doc_plain ''dependencies'' = Undefined"
    by code_simp+
  show ?thesis
    using f f' p p'
      flat_manifest_version_and_dependencies [of sample_parse "\<lparr>json = text_flat\<rparr>" doc_flat]
      flat_manifest_version_and_dependencies [of sample_parse "\<lparr>json = text_plain\<rparr>" doc_plain]
    by (simp add: isString_def)
qed

section \<open>The contributors\<close>

lemma gather_contributors_eq:
  "gather_contributors manifest = Inr l \<Longrightarrow> l = contributor_sources manifest"
  by (auto simp: gather_contributors_def contributor_sources_def js_get_eq_Inr and_then_eq_Inr
        isArray_def array_elements_def split: jsval.splits)

lemma normalize_contributor_eq:
  "normalize_contributor c = Inr n \<Longrightarrow> n = contributor_entry c"
  by (cases c)
     (auto simp: normalize_contributor_def contributor_entry_def isString_def js_get_eq_Inr
        and_then_eq_Inr)

lemma map_result_normalize_eq:
  "map_result normalize_contributor l = Inr ns \<Longrightarrow> ns = map contributor_entry l"
proof (induction l arbitrary: ns)
  case Nil
  then show ?case by simp
next
  case (Cons c l)
  then show ?case
    by (auto simp: and_then_eq_Inr normalize_contributor_eq)
qed

lemma uniq_loop_eq:
  "uniq_loop xs seen result =
     result @ first_by_name
                (filter (\<lambda>y. \<not> list_ex (\<lambda>s. strict_eq s (property y ''name'')) seen) xs)"
proof (induction xs arbitrary: seen result)
  case Nil
  show ?case by simp
next
  case (Cons v vs)
  show ?case
  proof (cases "list_ex (\<lambda>s. strict_eq s (property v ''name'')) seen")
    case True
    then show ?thesis
      by (simp add: Cons.IH)
  next
    case False
    have "filter (\<lambda>y. \<not> same_name v y)
            (filter (\<lambda>y. \<not> list_ex (\<lambda>s. strict_eq s (property y ''name'')) seen) vs)
          = filter (\<lambda>y. \<not> list_ex (\<lambda>s. strict_eq s (property y ''name''))
                             (seen @ [property v ''name''])) vs"
      by (auto simp: same_name_def list_ex_iff intro: filter_cong)
    with False show ?thesis
      by (simp add: Cons.IH)
  qed
qed

lemma uniq_by_name_eq: "uniq_by_name xs = first_by_name xs"
  by (simp add: uniq_by_name_def uniq_loop_eq)

lemma buildAggregatedContributorsList_eq:
  assumes "buildAggregatedContributorsList manifest = Inr cs"
  shows "cs = JArr (first_by_name (map contributor_entry (contributor_sources manifest)))"
  using assms
  by (auto simp: buildAggregatedContributorsList_def and_then_eq_Inr uniq_by_name_eq
        dest!: gather_contributors_eq map_result_normalize_eq)

text \<open>
  What keeping the first of each name amounts to: the kept entries are a subsequence of
  the list, no two of them share a name, and every entry dropped shares its name with
  one that is kept.
\<close>

lemma first_by_name_subseq: "subseq (first_by_name xs) xs"
proof (induction xs rule: first_by_name.induct)
  case 1
  show ?case by simp
next
  case (2 x xs)
  have "subseq (filter (\<lambda>y. \<not> same_name x y) xs) xs"
    by simp
  with "2.IH" have "subseq (first_by_name (filter (\<lambda>y. \<not> same_name x y) xs)) xs"
    by (rule subseq_order.order_trans)
  then show ?case
    by simp
qed

lemma first_by_name_subset: "set (first_by_name xs) \<subseteq> set xs"
proof (induction xs rule: first_by_name.induct)
  case 1
  show ?case by simp
next
  case (2 x xs)
  then show ?case by auto
qed

lemma first_by_name_distinct_names:
  "i < j \<Longrightarrow> j < length (first_by_name xs) \<Longrightarrow>
   \<not> same_name (first_by_name xs ! i) (first_by_name xs ! j)"
proof (induction xs arbitrary: i j rule: first_by_name.induct)
  case 1
  then show ?case by simp
next
  case (2 x xs)
  let ?r = "first_by_name (filter (\<lambda>y. \<not> same_name x y) xs)"
  from "2.prems" obtain j' where j: "j = Suc j'" and j': "j' < length ?r"
    by (cases j) auto
  show ?case
  proof (cases i)
    case 0
    have "?r ! j' \<in> set ?r"
      using j' by simp
    then have "?r ! j' \<in> set (filter (\<lambda>y. \<not> same_name x y) xs)"
      using first_by_name_subset by blast
    then show ?thesis
      using 0 j by simp
  next
    case (Suc i')
    with "2.prems" j have "i' < j'" by simp
    then show ?thesis
      using "2.IH" [of i' j'] j' Suc j by simp
  qed
qed

lemma first_by_name_covers:
  "x \<in> set xs \<Longrightarrow> x \<in> set (first_by_name xs) \<or> (\<exists>y\<in>set (first_by_name xs). same_name y x)"
proof (induction xs rule: first_by_name.induct)
  case 1
  then show ?case by simp
next
  case (2 z zs)
  show ?case
  proof (cases "x = z \<or> same_name z x")
    case True
    then show ?thesis by auto
  next
    case False
    with "2.prems" have "x \<in> set (filter (\<lambda>y. \<not> same_name z y) zs)"
      by simp
    then show ?thesis
      using "2.IH" by auto
  qed
qed


lemma gather_contributors_ok:
  "\<not> nullish manifest \<Longrightarrow> gather_contributors manifest = Inr (contributor_sources manifest)"
  by (auto simp: gather_contributors_def contributor_sources_def js_get_ok
        isArray_def array_elements_def split: jsval.splits)

lemma normalize_contributor_ok:
  "\<not> nullish c \<Longrightarrow> normalize_contributor c = Inr (contributor_entry c)"
  by (cases c)
     (simp_all add: normalize_contributor_def contributor_entry_def isString_def js_get_ok)

lemma map_result_normalize_ok:
  "list_all (\<lambda>c. \<not> nullish c) l \<Longrightarrow>
   map_result normalize_contributor l = Inr (map contributor_entry l)"
  by (induction l) (simp_all add: normalize_contributor_ok)

lemma buildAggregatedContributorsList_ok:
  assumes "\<not> nullish manifest"
      and "list_all (\<lambda>c. \<not> nullish c) (contributor_sources manifest)"
  shows "buildAggregatedContributorsList manifest
           = Inr (JArr (first_by_name (map contributor_entry (contributor_sources manifest))))"
  using assms
  by (simp add: buildAggregatedContributorsList_def gather_contributors_ok
        map_result_normalize_ok uniq_by_name_eq)

text \<open>
  C7. The contributors of a manifest are its author, if there is one, then the entries
  of \<open>contributors\<close>, then those of \<open>maintainers\<close>, each as name and email, and of
  the entries that share a name only the first, in the order met. The list is produced
  whenever no entry is \<open>null\<close>; whenever it is produced it is that list, and so is the
  \<open>contributors\<close> of every record returned. With the author \<open>Ann\<close> and the
  contributors \<open>Ann\<close> and \<open>Bob\<close>, the list is \<open>Ann\<close>, \<open>Bob\<close>.
\<close>

theorem contributors_aggregated_first_by_name:
  "(\<not> nullish manifest \<and> list_all (\<lambda>c. \<not> nullish c) (contributor_sources manifest) \<longrightarrow>
      buildAggregatedContributorsList manifest
        = Inr (JArr (first_by_name (map contributor_entry (contributor_sources manifest)))))
   \<and> (\<forall>cs. buildAggregatedContributorsList manifest = Inr cs \<longrightarrow>
        cs = JArr (first_by_name (map contributor_entry (contributor_sources manifest))))
   \<and> (parse (json i) = Some data \<and> exit_name (fn parse i) = ''success'' \<longrightarrow>
        output_field (fn parse i) ''contributors''
          = Some (JArr (first_by_name
                          (map contributor_entry (contributor_sources (resolved_manifest data))))))
   \<and> buildAggregatedContributorsList
        (JObj [(''author'', JStr ''Ann''),
               (''contributors'', JArr [JObj [(''name'', JStr ''Ann'')],
                                        JObj [(''name'', JStr ''Bob'')]])])
       = Inr (JArr [JObj [(''name'', JStr ''Ann''), (''email'', Undefined)],
                    JObj [(''name'', JStr ''Bob''), (''email'', Undefined)]])"
proof (intro conjI allI impI)
  assume "\<not> nullish manifest \<and> list_all (\<lambda>c. \<not> nullish c) (contributor_sources manifest)"
  then show "buildAggregatedContributorsList manifest
        = Inr (JArr (first_by_name (map contributor_entry (contributor_sources manifest))))"
    by (simp add: buildAggregatedContributorsList_ok)
next
  fix cs
  assume "buildAggregatedContributorsList manifest = Inr cs"
  then show "cs = JArr (first_by_name (map contributor_entry (contributor_sources manifest)))"
    by (rule buildAggregatedContributorsList_eq)
next
  assume a: "parse (json i) = Some data \<and> exit_name (fn parse i) = ''success''"
  then have "map_option Inr (output_field (fn parse i) ''contributors'')
           = Some (buildAggregatedContributorsList (resolved_manifest data))"
    using record_of_success(4) [of parse i data] by simp
  then obtain cs where o: "output_field (fn parse i) ''contributors'' = Some cs"
    and "buildAggregatedContributorsList (resolved_manifest data) = Inr cs"
    by auto
  then have "cs = JArr (first_by_name
                          (map contributor_entry (contributor_sources (resolved_manifest data))))"
    by (simp add: buildAggregatedContributorsList_eq)
  with o show "output_field (fn parse i) ''contributors''
          = Some (JArr (first_by_name
                          (map contributor_entry (contributor_sources (resolved_manifest data)))))"
    by simp
next
  show "buildAggregatedContributorsList
        (JObj [(''author'', JStr ''Ann''),
               (''contributors'', JArr [JObj [(''name'', JStr ''Ann'')],
                                        JObj [(''name'', JStr ''Bob'')]])])
       = Inr (JArr [JObj [(''name'', JStr ''Ann''), (''email'', Undefined)],
                    JObj [(''name'', JStr ''Bob''), (''email'', Undefined)]])"
    by code_simp
qed


theorem contributors_aggregated_first_by_name_witness:
  "\<not> nullish (resolved_manifest doc_registry)
   \<and> contributor_sources (resolved_manifest doc_registry)
       = [JStr ''New'', JObj [(''name'', JStr ''New''), (''email'', JStr ''n@x.org'')]]
   \<and> map contributor_entry (contributor_sources (resolved_manifest doc_registry))
       = [JObj [(''name'', JStr ''New''), (''email'', Undefined)],
          JObj [(''name'', JStr ''New''), (''email'', JStr ''n@x.org'')]]
   \<and> buildAggregatedContributorsList (resolved_manifest doc_registry)
       = Inr (JArr [JObj [(''name'', JStr ''New''), (''email'', Undefined)]])
   \<and> sample_parse (json \<lparr>json = text_flat\<rparr>) = Some doc_flat
   \<and> exit_name (fn sample_parse \<lparr>json = text_flat\<rparr>) = ''success''
   \<and> output_field (fn sample_parse \<lparr>json = text_flat\<rparr>) ''contributors''
       = Some (JArr (first_by_name
                       (map contributor_entry (contributor_sources (resolved_manifest doc_flat)))))
   \<and> first_by_name (map contributor_entry (contributor_sources (resolved_manifest doc_flat)))
       = [JObj [(''name'', JStr ''Ann''), (''email'', Undefined)],
          JObj [(''name'', JStr ''Bob''), (''email'', Undefined)]]"
proof -
  note c = contributors_aggregated_first_by_name [of "resolved_manifest doc_registry" sample_parse
             "\<lparr>json = text_flat\<rparr>" doc_flat]
  have 1: "\<not> nullish (resolved_manifest doc_registry)"
    by code_simp
  have 2: "contributor_sources (resolved_manifest doc_registry)
       = [JStr ''New'', JObj [(''name'', JStr ''New''), (''email'', JStr ''n@x.org'')]]"
    by code_simp
  have 3: "map contributor_entry (contributor_sources (resolved_manifest doc_registry))
       = [JObj [(''name'', JStr ''New''), (''email'', Undefined)],
          JObj [(''name'', JStr ''New''), (''email'', JStr ''n@x.org'')]]"
    by code_simp
  have 4: "first_by_name (map contributor_entry (contributor_sources (resolved_manifest doc_registry)))
       = [JObj [(''name'', JStr ''New''), (''email'', Undefined)]]"
    by code_simp
  have "list_all (\<lambda>c. \<not> nullish c) (contributor_sources (resolved_manifest doc_registry))"
    by (simp add: 2)
  with 1 c have "buildAggregatedContributorsList (resolved_manifest doc_registry)
        = Inr (JArr (first_by_name
                       (map contributor_entry (contributor_sources (resolved_manifest doc_registry)))))"
    by blast
  then have 5: "buildAggregatedContributorsList (resolved_manifest doc_registry)
       = Inr (JArr [JObj [(''name'', JStr ''New''), (''email'', Undefined)]])"
    by (simp only: 4)
  have 6: "sample_parse (json \<lparr>json = text_flat\<rparr>) = Some doc_flat"
    and 7: "exit_name (fn sample_parse \<lparr>json = text_flat\<rparr>) = ''success''"
    by (simp_all add: fn_def fn_parsed_def sample_parse_flat build_flat exit_name_def)
  from c 6 7 have 8: "output_field (fn sample_parse \<lparr>json = text_flat\<rparr>) ''contributors''
       = Some (JArr (first_by_name
                       (map contributor_entry (contributor_sources (resolved_manifest doc_flat)))))"
    by blast
  have 9: "first_by_name (map contributor_entry (contributor_sources (resolved_manifest doc_flat)))
       = [JObj [(''name'', JStr ''Ann''), (''email'', Undefined)],
          JObj [(''name'', JStr ''Bob''), (''email'', Undefined)]]"
    by code_simp
  from 1 2 3 5 6 7 8 9 show ?thesis
    by blast
qed

end
